theory Spec2Isabelle
  imports Main "HOL-Library.Sublist"
begin

section \<open>Python strings\<close>

text \<open>
  A Python \<open>str\<close> is modelled as a \<open>string\<close> whose characters are read as the code
  points U+0000 to U+00FF. On that range \<open>str.lower\<close> maps each character to one
  character and \<open>str.isspace\<close> is the finite table below.
\<close>

definition backslash :: char where
  "backslash = CHR 0x5C"

definition lower_char :: "char \<Rightarrow> char" where
  "lower_char c =
     (let n = (of_char c :: nat)
      in if (65 \<le> n \<and> n \<le> 90) \<or> (192 \<le> n \<and> n \<le> 222 \<and> n \<noteq> 215)
         then char_of (n + 32) else c)"

definition lower :: "string \<Rightarrow> string" where
  "lower s = map lower_char s"



text \<open>\<open>s.replace(old, new)\<close> for one-character \<open>old\<close> and \<open>new\<close>.\<close>

definition replace :: "char \<Rightarrow> char \<Rightarrow> string \<Rightarrow> string" where
  "replace old new s = map (\<lambda>c. if c = old then new else c) s"

section \<open>Paths and the file system\<close>

text \<open>
  A \<open>pathlib\<close> path in its parsed form: the anchor (drive and root) and the
  components after it. \<open>Path('')\<close> is \<open>PurePath [] []\<close>, the current directory.
  Parsing a string and rendering a path depend on the flavour (POSIX or Windows) and
  belong to the host below; the operations here are the same for both flavours.
\<close>

datatype path = PurePath (anchor: string) (tail: "string list")


definition name :: "path \<Rightarrow> string" where
  "name p = (if tail p = [] then [] else last (tail p))"

text \<open>\<open>str.rfind\<close> for a one-character pattern: the last index of it, or -1.\<close>

definition rfind :: "string \<Rightarrow> char \<Rightarrow> int" where
  "rfind s c =
     (if c \<in> set s then int (length s) - 1 - int (length (takeWhile (\<lambda>x. x \<noteq> c) (rev s)))
      else - 1)"

definition stem :: "path \<Rightarrow> string" where
  "stem p =
     (let nm = name p; i = rfind nm (CHR ''.'')
      in if 0 < i \<and> i < int (length nm) - 1 then take (nat i) nm else nm)"

text \<open>\<open>p / s\<close> for a string \<open>s\<close> that is a single relative component.\<close>

definition joinpath :: "path \<Rightarrow> string \<Rightarrow> path" where
  "joinpath p s = PurePath (anchor p) (tail p @ [s])"


datatype node = File string | Dir

type_synonym fs = "path \<rightharpoonup> node"


section \<open>Exceptions, the host\<close>

datatype exn =
  FileNotFoundError string | RuntimeError string | OSError string | UnicodeDecodeError string

text \<open>The fields of \<open>subprocess.CompletedProcess\<close> that the converter reads.\<close>

record completed =
  returncode :: int
  stderr :: string

text \<open>
  \<open>subprocess.run(command, capture_output=True, text=True)\<close> raises instead of returning
  when the program cannot be started (an \<open>OSError\<close>) and when the captured output is not
  valid text (a \<open>UnicodeDecodeError\<close>).
\<close>

datatype run_error = SpawnError string | DecodeError string

text \<open>
  What the code reads from its surroundings: \<open>os.environ\<close>, \<open>platform.system()\<close>,
  \<open>shutil.which\<close>, the path flavour (\<open>Path(s)\<close>, \<open>str(p)\<close>), \<open>p.resolve()\<close>, the paths
  the operating system refuses, the name \<open>tempfile\<close> picks for a temporary directory,
  and \<open>subprocess.run\<close>.

  \<^item> \<open>resolve h p\<close> is the path \<open>p.resolve()\<close> returns on the host, which depends on
    its current directory and its symbolic links; \<open>resolve_raises h p\<close> is the
    exception it raises instead, if it raises (\<open>RuntimeError\<close> on a symlink loop).
  \<^item> \<open>os_error h p\<close> is the message of the \<open>OSError\<close> with which every system call on
    \<open>p\<close> fails, if the operating system refuses the path (name too long, permission
    denied).
  \<^item> The external process may change the file system in any way.
\<close>

record host =
  environ :: "string \<rightharpoonup> string"
  system :: string
  which :: "string \<rightharpoonup> string"
  Path :: "string \<Rightarrow> path"
  str :: "path \<Rightarrow> string"
  resolve :: "path \<Rightarrow> path"
  resolve_raises :: "path \<Rightarrow> exn option"
  os_error :: "path \<Rightarrow> string option"
  mkdtemp :: "fs \<Rightarrow> string + path"
  run :: "string list \<Rightarrow> fs \<Rightarrow> (run_error + completed) \<times> fs"

text \<open>
  \<open>Path.exists()\<close> and \<open>Path.is_dir()\<close>: \<open>stat\<close> the path; a missing entry gives
  \<open>False\<close>, any other \<open>OSError\<close> is raised. \<open>os.path.exists\<close> and \<open>os.path.isdir\<close>
  give \<open>False\<close> on every \<open>OSError\<close>.
\<close>

definition path_exists :: "host \<Rightarrow> fs \<Rightarrow> path \<Rightarrow> exn + bool" where
  "path_exists h fs p =
     (case os_error h p of Some m \<Rightarrow> Inl (OSError m) | None \<Rightarrow> Inr (fs p \<noteq> None))"




section \<open>converter.py\<close>

subsection \<open>\<open>_windows_to_wsl_path\<close>\<close>

text \<open>
  The string the function returns when \<open>resolve()\<close> returns. When \<open>resolve()\<close> raises,
  so does the function: see \<open>build_convert_command_raises\<close>.
\<close>

definition windows_to_wsl_path :: "host \<Rightarrow> path \<Rightarrow> string" where
  "windows_to_wsl_path h win_path =
     (let path_str = str h (resolve h win_path)
      in if 2 \<le> length path_str \<and> path_str ! 1 = CHR '':''
         then (let drive = lower [path_str ! 0];
                   rest = replace backslash (CHR ''/'') (drop 2 path_str)
               in ''/mnt/'' @ drive @ rest)
         else replace backslash (CHR ''/'') path_str)"

subsection \<open>\<open>_build_convert_command\<close>\<close>

definition build_convert_command :: "host \<Rightarrow> path \<Rightarrow> path \<Rightarrow> path \<Rightarrow> bool \<Rightarrow> string list" where
  "build_convert_command h soffice_path input_path out_dir use_wsl =
     (if use_wsl
      then (let wsl_input = windows_to_wsl_path h input_path;
                wsl_out_dir = windows_to_wsl_path h out_dir
            in [''wsl'', ''soffice'', ''--headless'', ''--convert-to'', ''pdf'', ''--outdir'',
                wsl_out_dir, wsl_input])
      else [str h soffice_path, ''--headless'', ''--convert-to'', ''pdf'', ''--outdir'',
            str h out_dir, str h input_path])"


subsection \<open>\<open>find_libreoffice\<close>\<close>

text \<open>\<open>if found:\<close> on an optional string: neither \<open>None\<close> nor empty.\<close>

definition truthy :: "string option \<Rightarrow> bool" where
  "truthy v = (case v of None \<Rightarrow> False | Some s \<Rightarrow> s \<noteq> [])"

text \<open>
  The loops \<open>for name in (...): found = shutil.which(name); if found: return ...\<close> and
  \<open>for raw in candidates: ... if candidate.exists(): return ...\<close>, giving what the
  \<open>return\<close> inside hands back, or \<open>None\<close> when the loop runs to its end. The second
  loop stops with the \<open>OSError\<close> of an existence test that raises.
\<close>

fun first_which :: "host \<Rightarrow> string list \<Rightarrow> string option" where
  "first_which h [] = None"
| "first_which h (nm # names) =
     (let found = which h nm
      in if truthy found then found else first_which h names)"

fun first_existing :: "host \<Rightarrow> fs \<Rightarrow> string list \<Rightarrow> exn + path option" where
  "first_existing h fs [] = Inr None"
| "first_existing h fs (raw # raws) =
     (let candidate = Path h raw
      in case path_exists h fs candidate of
           Inl e \<Rightarrow> Inl e
         | Inr found \<Rightarrow> if found then Inr (Some candidate) else first_existing h fs raws)"

definition candidates :: "string list" where
  "candidates =
     [''C:'' @ [backslash] @ ''Program Files'' @ [backslash] @ ''LibreOffice'' @ [backslash]
        @ ''program'' @ [backslash] @ ''soffice.exe'',
      ''C:'' @ [backslash] @ ''Program Files (x86)'' @ [backslash] @ ''LibreOffice''
        @ [backslash] @ ''program'' @ [backslash] @ ''soffice.exe'']"

definition not_found_message :: string where
  "not_found_message = ''LibreOffice not found. Install it, set LIBREOFFICE_PATH, or use WSL.''"

text \<open>Lines 40 to 65: what the function does once no override is in force.\<close>

definition find_libreoffice_auto :: "host \<Rightarrow> fs \<Rightarrow> exn + (path \<times> bool)" where
  "find_libreoffice_auto h fs =
     (case (if system h = ''Windows''
            then (case first_which h [''soffice.exe'', ''soffice''] of
                    Some found \<Rightarrow> Inr (Some (Path h found, False))
                  | None \<Rightarrow>
                      (case first_existing h fs candidates of
                         Inl e \<Rightarrow> Inl e
                       | Inr (Some candidate) \<Rightarrow> Inr (Some (candidate, False))
                       | Inr None \<Rightarrow>
                           if truthy (which h ''wsl'') then Inr (Some (Path h ''wsl'', True))
                           else Inr None))
            else Inr None) of
        Inl e \<Rightarrow> Inl e
      | Inr (Some location) \<Rightarrow> Inr location
      | Inr None \<Rightarrow>
          (case first_which h [''soffice'', ''libreoffice''] of
             Some found \<Rightarrow> Inr (Path h found, False)
           | None \<Rightarrow> Inl (FileNotFoundError not_found_message)))"

text \<open>
  \<open>if env_path:\<close> is false both when the variable is unset and when it is set to the
  empty string.
\<close>

definition find_libreoffice :: "host \<Rightarrow> fs \<Rightarrow> exn + (path \<times> bool)" where
  "find_libreoffice h fs =
     (case environ h ''LIBREOFFICE_PATH'' of
        None \<Rightarrow> find_libreoffice_auto h fs
      | Some env_path \<Rightarrow>
          if env_path = [] then find_libreoffice_auto h fs
          else (let candidate = Path h env_path
                in case path_exists h fs candidate of
                     Inl e \<Rightarrow> Inl e
                   | Inr found \<Rightarrow>
                       if found then Inr (candidate, False)
                       else Inl (FileNotFoundError
                                   (''LIBREOFFICE_PATH not found: '' @ str h candidate))))"

subsection \<open>Library calls on the file system\<close>









subsection \<open>\<open>convert_docx_to_pdf\<close>\<close>



section \<open>The specification's words\<close>

text \<open>
  The drive pattern as the specification words it: a single letter followed by a colon.
\<close>

definition is_letter :: "char \<Rightarrow> bool" where
  "is_letter c =
     (let n = (of_char c :: nat) in (65 \<le> n \<and> n \<le> 90) \<or> (97 \<le> n \<and> n \<le> 122))"

definition spec_drive_pattern :: "string \<Rightarrow> bool" where
  "spec_drive_pattern s = (case s of d # c # rest \<Rightarrow> is_letter d \<and> c = CHR '':'' | _ \<Rightarrow> False)"






section \<open>Example hosts\<close>

text \<open>
  Concrete hosts on which the theorems below are instantiated. The two path flavours
  are written out for the strings used here: POSIX paths split at \<open>/\<close>; Windows paths
  split at either separator, with a drive and a root, or a root alone, in front. Both
  hosts refuse a path with a component of more than 255 characters.
\<close>

fun split_on :: "char \<Rightarrow> string \<Rightarrow> string list" where
  "split_on c [] = [[]]"
| "split_on c (x # xs) =
     (let ws = split_on c xs
      in if x = c then [] # ws else (x # hd ws) # tl ws)"

fun join :: "string \<Rightarrow> string list \<Rightarrow> string" where
  "join sep [] = []"
| "join sep [w] = w"
| "join sep (w # v # ws) = w @ sep @ join sep (v # ws)"

definition posix_Path :: "string \<Rightarrow> path" where
  "posix_Path s =
     PurePath (if take 1 s = ''/'' then ''/'' else [])
       (filter (\<lambda>w. w \<noteq> [] \<and> w \<noteq> ''.'') (split_on (CHR ''/'') s))"

definition posix_str :: "path \<Rightarrow> string" where
  "posix_str p =
     (if anchor p = [] \<and> tail p = [] then ''.'' else anchor p @ join ''/'' (tail p))"

definition posix_resolve :: "path \<Rightarrow> path" where
  "posix_resolve p =
     (if anchor p = [] then PurePath ''/'' ([''home'', ''u''] @ tail p) else p)"

definition windows_Path :: "string \<Rightarrow> path" where
  "windows_Path s =
     (let t = replace (CHR ''/'') backslash s;
          parts = (\<lambda>r. filter (\<lambda>w. w \<noteq> [] \<and> w \<noteq> ''.'') (split_on backslash r))
      in if 3 \<le> length t \<and> t ! 1 = CHR '':'' \<and> t ! 2 = backslash
         then PurePath (take 3 t) (parts (drop 3 t))
         else if take 1 t = [backslash] then PurePath [backslash] (parts t)
         else PurePath [] (parts t))"

definition windows_str :: "path \<Rightarrow> string" where
  "windows_str p =
     (if anchor p = [] \<and> tail p = [] then ''.''
      else anchor p @ join [backslash] (tail p))"

text \<open>The current directory is \<open>C:\Users\u\<close>; a root without a drive is on drive \<open>C:\<close>.\<close>

definition windows_resolve :: "path \<Rightarrow> path" where
  "windows_resolve p =
     (if anchor p = [] then PurePath (''C:'' @ [backslash]) ([''Users'', ''u''] @ tail p)
      else if anchor p = [backslash] then PurePath (''C:'' @ [backslash]) (tail p)
      else p)"

definition name_too_long :: "path \<Rightarrow> string option" where
  "name_too_long p =
     (if list_ex (\<lambda>w. 255 < length w) (tail p) then Some ''File name too long'' else None)"

text \<open>
  Three stand-ins for the external executable: one writes \<open><stem>.pdf\<close> into the
  directory that follows \<open>--outdir\<close> and exits 0, one exits 0 and writes nothing, one
  exits 1 with a message on its error stream.
\<close>

definition stub_writes_pdf :: "string list \<Rightarrow> fs \<Rightarrow> (run_error + completed) \<times> fs" where
  "stub_writes_pdf command fs =
     (Inr \<lparr>returncode = 0, stderr = []\<rparr>,
      fs(joinpath (posix_Path (command ! 5)) (stem (posix_Path (last command)) @ ''.pdf'')
           \<mapsto> File ''%PDF''))"

definition stub_writes_nothing :: "string list \<Rightarrow> fs \<Rightarrow> (run_error + completed) \<times> fs" where
  "stub_writes_nothing command fs = (Inr \<lparr>returncode = 0, stderr = []\<rparr>, fs)"


definition linux_host :: host where
  "linux_host =
     \<lparr>environ = Map.empty, system = ''Linux'',
      which = [''soffice'' \<mapsto> ''/usr/bin/soffice''],
      Path = posix_Path, str = posix_str, resolve = posix_resolve,
      resolve_raises = (\<lambda>p. None), os_error = name_too_long,
      mkdtemp = (\<lambda>fs. Inr (PurePath ''/'' [''tmp'', ''tmpk3x9qa''])),
      run = stub_writes_pdf\<rparr>"

definition linux_fs :: fs where
  "linux_fs =
     [PurePath [] [] \<mapsto> Dir, PurePath ''/'' [] \<mapsto> Dir, PurePath ''/'' [''tmp''] \<mapsto> Dir,
      PurePath [] [''report.docx''] \<mapsto> File ''docx'']"

definition windows_host :: host where
  "windows_host =
     \<lparr>environ = Map.empty, system = ''Windows'',
      which = [''wsl'' \<mapsto> ''C:'' @ [backslash] @ ''Windows'' @ [backslash] @ ''System32''
                         @ [backslash] @ ''wsl.exe''],
      Path = windows_Path, str = windows_str, resolve = windows_resolve,
      resolve_raises = (\<lambda>p. None), os_error = name_too_long,
      mkdtemp = (\<lambda>fs. Inr (PurePath (''C:'' @ [backslash]) [''Temp'', ''tmpk3x9qa''])),
      run = stub_writes_nothing\<rparr>"


section \<open>Auxiliary facts\<close>

subsection \<open>The resolution order\<close>






subsection \<open>Which exceptions the parts raise\<close>












subsection \<open>Paths and directories\<close>















subsection \<open>The path rewrite\<close>

lemma lower_letter_not_backslash:
  assumes "is_letter d"
  shows "lower_char d \<noteq> backslash"
proof
  assume e: "lower_char d = backslash"
  have b: "of_char backslash = (92::nat)"
    by (simp add: backslash_def)
  define n where "n = (of_char d :: nat)"
  have r: "(65 \<le> n \<and> n \<le> 90) \<or> (97 \<le> n \<and> n \<le> 122)"
    using assms by (simp add: is_letter_def n_def Let_def)
  show False
  proof (cases "65 \<le> n \<and> n \<le> 90")
    case True
    then have "lower_char d = char_of (n + 32)"
      by (simp add: lower_char_def n_def Let_def)
    then have "(of_char (lower_char d) :: nat) = (n + 32) mod 256"
      by simp
    then have "(of_char (lower_char d) :: nat) = n + 32"
      using True by simp
    then show False using e b True by simp
  next
    case False
    then have "lower_char d = d"
      using r unfolding lower_char_def n_def Let_def by auto
    then have "n = 92" using e b by (simp add: n_def)
    then show False using r by simp
  qed
qed

lemma replace_idem: "replace backslash (CHR ''/'') (replace backslash (CHR ''/'') s) = replace backslash (CHR ''/'') s"
  by (simp add: replace_def backslash_def)

lemma replace_append: "replace a b (xs @ ys) = replace a b xs @ replace a b ys"
  by (simp add: replace_def)

lemma wsl_of_drive:
  assumes "spec_drive_pattern (str h (resolve h p))"
  shows "\<exists>d rest. is_letter d \<and> str h (resolve h p) = d # CHR '':'' # rest
           \<and> windows_to_wsl_path h p = ''/mnt/'' @ [lower_char d] @ replace backslash (CHR ''/'') rest"
  using assms
  by (auto simp: spec_drive_pattern_def windows_to_wsl_path_def lower_def split: list.splits)

section \<open>The claims\<close>




text \<open>
  C2, as the code has it. Let \<open>s\<close> be the string of the resolved path. When \<open>s\<close> is
  some character \<open>d\<close>, a colon and a remainder, the result is \<open>/mnt/\<close>, the lowercased
  \<open>d\<close>, and the remainder with every backslash turned into a forward slash. When \<open>s\<close>
  is shorter than two characters or its second character is not a colon, the result
  is \<open>s\<close> with every backslash turned into a forward slash and nothing else changed.
\<close>

theorem windows_to_wsl_path_rewrite:
  assumes "str h (resolve h win_path) = s"
  shows "(\<forall>d rest. s = d # CHR '':'' # rest \<longrightarrow>
            windows_to_wsl_path h win_path
              = ''/mnt/'' @ lower [d] @ replace backslash (CHR ''/'') rest)
       \<and> (length s < 2 \<or> s ! 1 \<noteq> CHR '':'' \<longrightarrow>
            windows_to_wsl_path h win_path = replace backslash (CHR ''/'') s)"
  using assms by (auto simp add: windows_to_wsl_path_def)

theorem windows_to_wsl_path_rewrite_witness:
  "windows_to_wsl_path windows_host (PurePath (''C:'' @ [backslash]) [''Users'', ''x'', ''f.docx''])
     = ''/mnt/c/Users/x/f.docx''
   \<and> windows_to_wsl_path linux_host (PurePath ''/'' [''home'', ''u'', ''a'' @ [backslash] @ ''b''])
     = ''/home/u/a/b''"
proof -
  have s1: "str windows_host (resolve windows_host
              (PurePath (''C:'' @ [backslash]) [''Users'', ''x'', ''f.docx'']))
            = CHR ''C'' # CHR '':'' #
              ([backslash] @ ''Users'' @ [backslash] @ ''x'' @ [backslash] @ ''f.docx'')"
    by code_simp
  have s2: "str linux_host (resolve linux_host
              (PurePath ''/'' [''home'', ''u'', ''a'' @ [backslash] @ ''b'']))
            = ''/home/u/a'' @ [backslash] @ ''b''"
    by code_simp
  have l: "lower ''C'' = ''c''"
    by code_simp
  have r1: "replace backslash (CHR ''/'')
              ([backslash] @ ''Users'' @ [backslash] @ ''x'' @ [backslash] @ ''f.docx'')
            = ''/Users/x/f.docx''"
    by code_simp
  have r2: "replace backslash (CHR ''/'') (''/home/u/a'' @ [backslash] @ ''b'') = ''/home/u/a/b''"
    by code_simp
  have n2: "(''/home/u/a'' @ [backslash] @ ''b'') ! 1 \<noteq> CHR '':''"
    by code_simp
  from windows_to_wsl_path_rewrite[OF s1] windows_to_wsl_path_rewrite[OF s2] l r1 r2 n2
  show ?thesis by simp
qed

text \<open>
  The resolved string \<open>1:\x\<close> does not begin with a letter and a colon, and yet
  it is not merely normalised to \<open>1:/x\<close>: it becomes \<open>/mnt/1/x\<close>.
\<close>

theorem windows_to_wsl_path_counterexample:
  "str windows_host (resolve windows_host (PurePath (''1:'' @ [backslash]) [''x'']))
     = ''1:'' @ [backslash] @ ''x''
   \<and> \<not> spec_drive_pattern (''1:'' @ [backslash] @ ''x'')
   \<and> replace backslash (CHR ''/'') (''1:'' @ [backslash] @ ''x'') = ''1:/x''
   \<and> windows_to_wsl_path windows_host (PurePath (''1:'' @ [backslash]) [''x'']) = ''/mnt/1/x''
   \<and> windows_to_wsl_path windows_host (PurePath (''1:'' @ [backslash]) [''x''])
       \<noteq> replace backslash (CHR ''/'') (''1:'' @ [backslash] @ ''x'')"
  by code_simp

text \<open>
  C3, as the code has it. Whenever \<open>LIBREOFFICE_PATH\<close> is set to a non-empty value
  and the path it names exists, \<open>find_libreoffice\<close> returns that path with
  \<open>use_wsl = False\<close>, whatever the platform and the search path are.
\<close>

theorem find_libreoffice_override:
  assumes "environ h ''LIBREOFFICE_PATH'' = Some env_path"
    and "env_path \<noteq> []"
    and "path_exists h fs (Path h env_path) = Inr True"
  shows "find_libreoffice (h\<lparr>system := sy, which := wh\<rparr>) fs = Inr (Path h env_path, False)"
  using assms by (simp add: find_libreoffice_def path_exists_def)

theorem find_libreoffice_override_witness:
  "find_libreoffice
     (linux_host\<lparr>environ := [''LIBREOFFICE_PATH'' \<mapsto> ''/opt/lo/soffice''],
                  system := ''Windows'', which := Map.empty\<rparr>)
     (linux_fs(PurePath ''/'' [''opt'', ''lo'', ''soffice''] \<mapsto> File ''elf''))
   = Inr (PurePath ''/'' [''opt'', ''lo'', ''soffice''], False)"
proof -
  let ?h = "linux_host\<lparr>environ := [''LIBREOFFICE_PATH'' \<mapsto> ''/opt/lo/soffice'']\<rparr>"
  let ?fs = "linux_fs(PurePath ''/'' [''opt'', ''lo'', ''soffice''] \<mapsto> File ''elf'')"
  have e: "environ ?h ''LIBREOFFICE_PATH'' = Some ''/opt/lo/soffice''"
    by simp
  have n: "''/opt/lo/soffice'' \<noteq> []"
    by simp
  have p: "Path ?h ''/opt/lo/soffice'' = PurePath ''/'' [''opt'', ''lo'', ''soffice'']"
    by code_simp
  have x: "path_exists ?h ?fs (Path ?h ''/opt/lo/soffice'') = Inr True"
    by code_simp
  from find_libreoffice_override[OF e n x, where sy = "''Windows''" and wh = Map.empty] p
  show ?thesis by simp
qed

text \<open>
  With the variable set to the empty string, \<open>Path('')\<close> is the current directory,
  which exists; \<open>if env_path:\<close> is false all the same, auto-detection runs and returns
  what the search path holds.
\<close>

theorem find_libreoffice_override_counterexample:
  "environ (linux_host\<lparr>environ := [''LIBREOFFICE_PATH'' \<mapsto> []]\<rparr>) ''LIBREOFFICE_PATH'' = Some []
   \<and> Path (linux_host\<lparr>environ := [''LIBREOFFICE_PATH'' \<mapsto> []]\<rparr>) [] = PurePath [] []
   \<and> path_exists (linux_host\<lparr>environ := [''LIBREOFFICE_PATH'' \<mapsto> []]\<rparr>) linux_fs (PurePath [] [])
       = Inr True
   \<and> find_libreoffice (linux_host\<lparr>environ := [''LIBREOFFICE_PATH'' \<mapsto> []]\<rparr>) linux_fs
       = Inr (PurePath ''/'' [''usr'', ''bin'', ''soffice''], False)
   \<and> find_libreoffice (linux_host\<lparr>environ := [''LIBREOFFICE_PATH'' \<mapsto> []]\<rparr>) linux_fs
       \<noteq> Inr (PurePath [] [], False)"
  by code_simp






text \<open>
  C6. The native command has the string of the located executable as argument 0 and
  the string of the input path, untranslated, as its last argument; the bridged
  command starts with \<open>wsl\<close> and \<open>soffice\<close> and carries the translated output
  directory and input. In both, what follows is \<open>--headless\<close>, \<open>--convert-to pdf\<close>,
  \<open>--outdir\<close> with the directory, and the input file last.
\<close>

theorem build_convert_command_shape:
  "build_convert_command h soffice_path input_path out_dir False ! 0 = str h soffice_path
   \<and> last (build_convert_command h soffice_path input_path out_dir False) = str h input_path
   \<and> drop 1 (build_convert_command h soffice_path input_path out_dir False)
       = [''--headless'', ''--convert-to'', ''pdf'', ''--outdir'', str h out_dir, str h input_path]
   \<and> take 2 (build_convert_command h soffice_path input_path out_dir True) = [''wsl'', ''soffice'']
   \<and> drop 2 (build_convert_command h soffice_path input_path out_dir True)
       = [''--headless'', ''--convert-to'', ''pdf'', ''--outdir'',
          windows_to_wsl_path h out_dir, windows_to_wsl_path h input_path]"
  by (simp add: build_convert_command_def)






text \<open>
  C9, as the code has it. For a path whose resolved string begins with a drive letter
  and a colon, the result is fixed by that string: \<open>/mnt/\<close>, the lowercased letter, and
  what follows the colon with forward slashes. Translating, on any host, a path that
  resolves to that result gives the result again: the rewrite is stable where its
  output resolves to itself, as it does on the bridge side.
\<close>

theorem windows_to_wsl_path_stable:
  assumes "spec_drive_pattern (str h (resolve h p))"
  shows "windows_to_wsl_path h p
           = ''/mnt/'' @ lower [hd (str h (resolve h p))]
               @ replace backslash (CHR ''/'') (drop 2 (str h (resolve h p)))
       \<and> (\<forall>(h' :: host) q. str h' (resolve h' q) = windows_to_wsl_path h p \<longrightarrow>
                   windows_to_wsl_path h' q = windows_to_wsl_path h p)"
proof (intro conjI allI impI)
  from wsl_of_drive[OF assms] show "windows_to_wsl_path h p
           = ''/mnt/'' @ lower [hd (str h (resolve h p))]
               @ replace backslash (CHR ''/'') (drop 2 (str h (resolve h p)))"
    by (auto simp: lower_def)
next
  fix h' :: host and q
  assume q: "str h' (resolve h' q) = windows_to_wsl_path h p"
  from wsl_of_drive[OF assms] obtain d rest where d: "is_letter d"
    and out: "windows_to_wsl_path h p = ''/mnt/'' @ [lower_char d] @ replace backslash (CHR ''/'') rest"
    by blast
  have "windows_to_wsl_path h' q = replace backslash (CHR ''/'') (windows_to_wsl_path h p)"
    using q out by (simp add: windows_to_wsl_path_def)
  also have "\<dots> = ''/mnt/'' @ replace backslash (CHR ''/'') [lower_char d]
                   @ replace backslash (CHR ''/'') (replace backslash (CHR ''/'') rest)"
    unfolding out replace_append by (simp add: replace_def backslash_def)
  also have "\<dots> = windows_to_wsl_path h p"
    using lower_letter_not_backslash[OF d] by (simp add: out replace_idem) (simp add: replace_def)
  finally show "windows_to_wsl_path h' q = windows_to_wsl_path h p" .
qed

theorem windows_to_wsl_path_stable_witness:
  "windows_to_wsl_path windows_host (PurePath (''C:'' @ [backslash]) [''Users'', ''x'', ''f.docx''])
     = ''/mnt/c/Users/x/f.docx''
   \<and> windows_to_wsl_path linux_host (posix_Path ''/mnt/c/Users/x/f.docx'')
     = ''/mnt/c/Users/x/f.docx''"
proof -
  let ?p = "PurePath (''C:'' @ [backslash]) [''Users'', ''x'', ''f.docx'']"
  let ?q = "posix_Path ''/mnt/c/Users/x/f.docx''"
  have d: "spec_drive_pattern (str windows_host (resolve windows_host ?p))"
    by code_simp
  have o: "windows_to_wsl_path windows_host ?p = ''/mnt/c/Users/x/f.docx''"
    by code_simp
  have q: "str linux_host (resolve linux_host ?q) = windows_to_wsl_path windows_host ?p"
    by code_simp
  from windows_to_wsl_path_stable[OF d, THEN conjunct2, rule_format, OF q] o
  show ?thesis by simp
qed

text \<open>
  On the Windows host the output does not resolve to itself: \<open>/mnt/c/Users/x/f.docx\<close>
  is a path with a root and no drive, \<open>resolve()\<close> puts the current drive in front
  of it, and translating it again gives \<open>/mnt/c/mnt/c/Users/x/f.docx\<close>.
\<close>

theorem windows_to_wsl_path_stable_counterexample:
  "spec_drive_pattern (str windows_host (resolve windows_host
       (PurePath (''C:'' @ [backslash]) [''Users'', ''x'', ''f.docx''])))
   \<and> windows_to_wsl_path windows_host (PurePath (''C:'' @ [backslash]) [''Users'', ''x'', ''f.docx''])
       = ''/mnt/c/Users/x/f.docx''
   \<and> str windows_host (resolve windows_host (Path windows_host ''/mnt/c/Users/x/f.docx''))
       = ''C:'' @ [backslash] @ ''mnt'' @ [backslash] @ ''c'' @ [backslash] @ ''Users''
           @ [backslash] @ ''x'' @ [backslash] @ ''f.docx''
   \<and> windows_to_wsl_path windows_host (Path windows_host ''/mnt/c/Users/x/f.docx'')
       = ''/mnt/c/mnt/c/Users/x/f.docx''"
  by code_simp

text \<open>
  C10. The test looks only at the length of the resolved string and at its second
  character: whenever there are at least two characters and the second is a colon,
  the mount prefix is written with the lowercased first character, letter or not.
\<close>

theorem drive_test_ignores_letter:
  assumes "str h (resolve h win_path) = s"
    and "2 \<le> length s"
    and "s ! 1 = CHR '':''"
  shows "windows_to_wsl_path h win_path
           = ''/mnt/'' @ lower [s ! 0] @ replace backslash (CHR ''/'') (drop 2 s)"
  using assms by (simp add: windows_to_wsl_path_def)

theorem drive_test_ignores_letter_witness:
  "\<not> is_letter (CHR ''1'')
   \<and> windows_to_wsl_path windows_host (PurePath (''1:'' @ [backslash]) [''x'']) = ''/mnt/1/x''"
proof -
  let ?s = "''1:'' @ [backslash] @ ''x''"
  have s: "str windows_host (resolve windows_host (PurePath (''1:'' @ [backslash]) [''x''])) = ?s"
    by code_simp
  have l: "2 \<le> length ?s" by simp
  have c: "?s ! 1 = CHR '':''" by simp
  have v: "''/mnt/'' @ lower [?s ! 0] @ replace backslash (CHR ''/'') (drop 2 ?s) = ''/mnt/1/x''"
    by code_simp
  have n: "\<not> is_letter (CHR ''1'')" by code_simp
  from drive_test_ignores_letter[OF s l c] v n show ?thesis by simp
qed

end
